theory Spec2Isabelle
  imports Complex_Main
begin

section \<open>Data model (src/auth/types.ts)\<close>

text \<open>
  Timestamps and durations are JavaScript numbers holding whole milliseconds (or whole
  seconds for token claims); they are modelled as \<open>int\<close>.  Strings are \<open>string\<close>.
  An optional field \<open>f?: T\<close> is a \<open>T option\<close>; \<open>None\<close> is \<open>undefined\<close>.
\<close>

datatype AuthFlowState = LOGGED_OUT | PENDING_OTP | AUTHENTICATED | SESSION_EXPIRED

datatype AuthErrorCode =
    INVALID_EMAIL | INVALID_OTP | OTP_EXPIRED | RATE_LIMITED | NETWORK_ERROR
  | AUTH0_UNAVAILABLE | SESSION_EXPIRED_ERROR | REFRESH_FAILED | STORAGE_ERROR
  | NOT_AUTHENTICATED | VALIDATION_ERROR | EMAIL_DOMAIN_NOT_ALLOWED

text \<open>\<open>AuthState\<close>: the complete authentication state.\<close>

record AuthState =
  as_email :: string
  as_accessToken :: string
  as_refreshToken :: string
  as_expiresAt :: int
  as_idToken :: "string option"
  as_sessionCreatedAt :: int

text \<open>\<open>Omit<AuthState, 'refreshToken'>\<close>: the part kept in \<open>chrome.storage.session\<close>.\<close>

record SessionAuth =
  sa_email :: string
  sa_accessToken :: string
  sa_expiresAt :: int
  sa_idToken :: "string option"
  sa_sessionCreatedAt :: int

record OTPRequest =
  otp_email :: string
  requestedAt :: int
  attemptCount :: int
  windowStart :: int
  codeVerifier :: "string option"

record UserProfile =
  up_sub :: string
  up_email :: string
  up_email_verified :: bool
  up_name :: "string option"
  up_picture :: "string option"
  updatedAt :: int

record TokenResponse =
  access_token :: string
  refresh_token :: "string option"
  id_token :: "string option"
  expires_in :: int

record Auth0ErrorResponse =
  err_error :: string
  err_error_description :: "string option"
  err_message :: "string option"

record SessionMeta =
  createdAt :: int
  meta_email :: string

record SessionStorageSchema =
  auth :: "SessionAuth option"
  otpRequest :: "OTPRequest option"
  userProfile :: "UserProfile option"
  flowState :: "AuthFlowState option"

record LocalStorageSchema =
  encryptedRefreshToken :: "string option"
  refreshTokenIV :: "string option"
  sessionMeta :: "SessionMeta option"

text \<open>The two storage partitions of the extension, threaded through every operation.\<close>

record Store =
  sessionStore :: SessionStorageSchema
  localStore :: LocalStorageSchema

text \<open>
  The storage operations are given the two functions they call to encrypt and decrypt:
  \<open>enc plaintext\<close> returns the pair (ciphertext, iv) of one call, and \<open>dec ciphertext iv\<close>
  is \<open>None\<close> when the call rejects.  The repository's own \<open>encrypt\<close> and \<open>decrypt\<close> are
  defined below, in the section on \<open>local-storage.ts\<close>.
\<close>

type_synonym encryptFn = "string \<Rightarrow> string \<times> string"
type_synonym decryptFn = "string \<Rightarrow> string \<Rightarrow> string option"

section \<open>JavaScript truthiness\<close>

text \<open>\<open>!s\<close> for \<open>s: string | undefined\<close>: true for \<open>undefined\<close> and for the empty string.\<close>

fun falsy :: "string option \<Rightarrow> bool" where
  "falsy None = True"
| "falsy (Some s) = (s = [])"

section \<open>src/storage/session-storage.ts\<close>

definition getAuthState :: "Store \<Rightarrow> SessionAuth option" where
  "getAuthState s = auth (sessionStore s)"

definition setAuthState :: "SessionAuth \<Rightarrow> Store \<Rightarrow> Store" where
  "setAuthState a s = s\<lparr>sessionStore := (sessionStore s)\<lparr>auth := Some a\<rparr>\<rparr>"

definition clearAuthState :: "Store \<Rightarrow> Store" where
  "clearAuthState s = s\<lparr>sessionStore := (sessionStore s)\<lparr>auth := None\<rparr>\<rparr>"

definition getOTPRequest :: "Store \<Rightarrow> OTPRequest option" where
  "getOTPRequest s = otpRequest (sessionStore s)"

definition setOTPRequest :: "OTPRequest \<Rightarrow> Store \<Rightarrow> Store" where
  "setOTPRequest r s = s\<lparr>sessionStore := (sessionStore s)\<lparr>otpRequest := Some r\<rparr>\<rparr>"

definition clearOTPRequest :: "Store \<Rightarrow> Store" where
  "clearOTPRequest s = s\<lparr>sessionStore := (sessionStore s)\<lparr>otpRequest := None\<rparr>\<rparr>"

definition getUserProfile :: "Store \<Rightarrow> UserProfile option" where
  "getUserProfile s = userProfile (sessionStore s)"

definition setUserProfile :: "UserProfile \<Rightarrow> Store \<Rightarrow> Store" where
  "setUserProfile p s = s\<lparr>sessionStore := (sessionStore s)\<lparr>userProfile := Some p\<rparr>\<rparr>"

definition clearUserProfile :: "Store \<Rightarrow> Store" where
  "clearUserProfile s = s\<lparr>sessionStore := (sessionStore s)\<lparr>userProfile := None\<rparr>\<rparr>"

definition getFlowState :: "Store \<Rightarrow> AuthFlowState option" where
  "getFlowState s = flowState (sessionStore s)"

definition setFlowState :: "AuthFlowState \<Rightarrow> Store \<Rightarrow> Store" where
  "setFlowState f s = s\<lparr>sessionStore := (sessionStore s)\<lparr>flowState := Some f\<rparr>\<rparr>"

section \<open>src/storage/local-storage.ts\<close>

subsection \<open>Encryption\<close>

text \<open>
  \<open>btoa\<close> and \<open>atob\<close>, the text codecs and the Web Crypto calls are platform code: they
  are the fields of a record.  A \<open>Uint8Array\<close> and a binary string are both lists of
  8-bit characters here, so \<open>String.fromCharCode(...buffer)\<close> and the \<open>charCodeAt\<close> loop
  of \<open>base64ToBuffer\<close> are the identity on this representation.  \<open>None\<close> is a thrown
  exception or a rejected promise.  \<open>deriveKey\<close> stands for \<open>importKey\<close> followed by
  \<open>deriveKey\<close> (PBKDF2, 100000 iterations, SHA-256, to a 256-bit AES-GCM key);
  \<open>subtleEncrypt\<close> and \<open>subtleDecrypt\<close> take the key, the iv and the data.
\<close>

type_synonym bytes = string

record Base64Codec =
  btoa :: "bytes \<Rightarrow> string"
  atob :: "string \<Rightarrow> bytes option"

record 'k CryptoPlatform = Base64Codec +
  runtimeId :: string
  deriveKey :: "bytes \<Rightarrow> bytes \<Rightarrow> 'k"
  subtleEncrypt :: "'k \<Rightarrow> bytes \<Rightarrow> bytes \<Rightarrow> bytes"
  subtleDecrypt :: "'k \<Rightarrow> bytes \<Rightarrow> bytes \<Rightarrow> bytes option"
  textEncode :: "string \<Rightarrow> bytes"
  textDecode :: "bytes \<Rightarrow> string"


text \<open>
  \<open>getEncryptionKey\<close>.  The key is a function of the extension id and a fixed salt, so
  the module variable that caches it does not change what is returned.
\<close>

definition getEncryptionKey :: "('k, 'z) CryptoPlatform_scheme \<Rightarrow> 'k" where
  "getEncryptionKey plat =
     deriveKey plat (textEncode plat (runtimeId plat))
       (textEncode plat ''auth0-passwordless-extension'')"

definition bufferToBase64 :: "('z) Base64Codec_scheme \<Rightarrow> bytes \<Rightarrow> string" where
  "bufferToBase64 plat buffer = btoa plat buffer"

definition base64ToBuffer :: "('z) Base64Codec_scheme \<Rightarrow> string \<Rightarrow> bytes option" where
  "base64ToBuffer plat base64 = atob plat base64"

text \<open>
  \<open>encrypt\<close>; \<open>iv\<close> is what \<open>crypto.getRandomValues(new Uint8Array(IV_LENGTH))\<close> returned
  for this call.
\<close>

definition encrypt :: "'k CryptoPlatform \<Rightarrow> bytes \<Rightarrow> string \<Rightarrow> string \<times> string" where
  "encrypt plat iv plaintext =
     (let key = getEncryptionKey plat;
          cipherBuffer = subtleEncrypt plat key iv (textEncode plat plaintext)
      in (bufferToBase64 plat cipherBuffer, bufferToBase64 plat iv))"

text \<open>
  \<open>decrypt\<close>: the iv is decoded first, then the ciphertext; a failure of either, or of
  \<open>crypto.subtle.decrypt\<close>, is the rejection of the promise.
\<close>

definition decrypt :: "'k CryptoPlatform \<Rightarrow> string \<Rightarrow> string \<Rightarrow> string option" where
  "decrypt plat ciphertext iv =
     (let key = getEncryptionKey plat
      in case base64ToBuffer plat iv of
           None \<Rightarrow> None
         | Some ivBytes \<Rightarrow>
             (case base64ToBuffer plat ciphertext of
                None \<Rightarrow> None
              | Some cipherBytes \<Rightarrow>
                  (case subtleDecrypt plat key ivBytes cipherBytes of
                     None \<Rightarrow> None
                   | Some plainBuffer \<Rightarrow> Some (textDecode plat plainBuffer))))"

subsection \<open>Storage operations\<close>

text \<open>\<open>setRefreshToken\<close>: encrypt, then write ciphertext and iv side by side.\<close>

definition setRefreshToken :: "encryptFn \<Rightarrow> string \<Rightarrow> Store \<Rightarrow> Store" where
  "setRefreshToken enc token s =
     (case enc token of (ciphertext, iv) \<Rightarrow>
        s\<lparr>localStore := (localStore s)
             \<lparr>encryptedRefreshToken := Some ciphertext, refreshTokenIV := Some iv\<rparr>\<rparr>)"

definition clearRefreshToken :: "Store \<Rightarrow> Store" where
  "clearRefreshToken s =
     s\<lparr>localStore := (localStore s)\<lparr>encryptedRefreshToken := None, refreshTokenIV := None\<rparr>\<rparr>"

text \<open>
  \<open>getRefreshToken\<close>: \<open>undefined\<close> when either entry is missing or empty (nothing is
  erased on that path); otherwise decrypt, and when decryption throws, clear both
  entries and return \<open>undefined\<close>.  The read can change the store, so it returns it.
\<close>

definition getRefreshToken :: "decryptFn \<Rightarrow> Store \<Rightarrow> string option \<times> Store" where
  "getRefreshToken dec s =
     (let ciphertext = encryptedRefreshToken (localStore s);
          iv = refreshTokenIV (localStore s)
      in if falsy ciphertext \<or> falsy iv then (None, s)
         else (case dec (the ciphertext) (the iv) of
                 Some token \<Rightarrow> (Some token, s)
               | None \<Rightarrow> (None, clearRefreshToken s)))"

definition setSessionMeta :: "int \<Rightarrow> string \<Rightarrow> Store \<Rightarrow> Store" where
  "setSessionMeta now email s =
     s\<lparr>localStore := (localStore s)
          \<lparr>sessionMeta := Some \<lparr>createdAt = now, meta_email = email\<rparr>\<rparr>\<rparr>"

definition getSessionMeta :: "Store \<Rightarrow> SessionMeta option" where
  "getSessionMeta s = sessionMeta (localStore s)"

definition clearSessionMeta :: "Store \<Rightarrow> Store" where
  "clearSessionMeta s = s\<lparr>localStore := (localStore s)\<lparr>sessionMeta := None\<rparr>\<rparr>"

definition SEVEN_DAYS_MS :: int where
  "SEVEN_DAYS_MS = 7 * 24 * 60 * 60 * 1000"

definition isSessionExpired :: "int \<Rightarrow> Store \<Rightarrow> bool" where
  "isSessionExpired now s =
     (case getSessionMeta s of
        None \<Rightarrow> True
      | Some meta \<Rightarrow> now - createdAt meta > SEVEN_DAYS_MS)"

section \<open>src/storage/index.ts\<close>

definition withRefreshToken :: "SessionAuth \<Rightarrow> string \<Rightarrow> AuthState" where
  "withRefreshToken a token =
     \<lparr>as_email = sa_email a, as_accessToken = sa_accessToken a, as_refreshToken = token,
      as_expiresAt = sa_expiresAt a, as_idToken = sa_idToken a,
      as_sessionCreatedAt = sa_sessionCreatedAt a\<rparr>"

definition omitRefreshToken :: "AuthState \<Rightarrow> SessionAuth" where
  "omitRefreshToken a =
     \<lparr>sa_email = as_email a, sa_accessToken = as_accessToken a,
      sa_expiresAt = as_expiresAt a, sa_idToken = as_idToken a,
      sa_sessionCreatedAt = as_sessionCreatedAt a\<rparr>"

definition getCompleteAuthState :: "decryptFn \<Rightarrow> Store \<Rightarrow> AuthState option \<times> Store" where
  "getCompleteAuthState dec s =
     (let sessionAuth = getAuthState s;
          (refreshToken, s') = getRefreshToken dec s
      in case sessionAuth of
           None \<Rightarrow> (None, s')
         | Some a \<Rightarrow>
             if falsy refreshToken then (None, s')
             else (Some (withRefreshToken a (the refreshToken)), s'))"

definition storeAuthState :: "encryptFn \<Rightarrow> int \<Rightarrow> AuthState \<Rightarrow> Store \<Rightarrow> Store" where
  "storeAuthState enc now a s =
     setSessionMeta now (as_email a)
       (setRefreshToken enc (as_refreshToken a)
          (setAuthState (omitRefreshToken a) s))"

definition clearAllAuthState :: "Store \<Rightarrow> Store" where
  "clearAllAuthState s =
     setFlowState LOGGED_OUT
       (clearOTPRequest (clearUserProfile (clearSessionMeta (clearRefreshToken (clearAuthState s)))))"

definition FIVE_MINUTES_MS :: int where
  "FIVE_MINUTES_MS = 5 * 60 * 1000"

definition isAccessTokenExpired :: "int \<Rightarrow> Store \<Rightarrow> bool" where
  "isAccessTokenExpired now s =
     (case getAuthState s of
        None \<Rightarrow> True
      | Some a \<Rightarrow> now > sa_expiresAt a - FIVE_MINUTES_MS)"

section \<open>String helpers of the platform\<close>

text \<open>
  \<open>String.prototype.includes\<close> (here \<open>strIncludes\<close>), \<open>toLowerCase\<close> (on the ASCII letters) and \<open>trim\<close>, and
  the regular-expression class \<open>\s\<close>, on 8-bit characters.
\<close>

fun startsWith :: "string \<Rightarrow> string \<Rightarrow> bool" where
  "startsWith s [] = True"
| "startsWith [] (c # cs) = False"
| "startsWith (x # xs) (c # cs) = (x = c \<and> startsWith xs cs)"

fun strIncludes :: "string \<Rightarrow> string \<Rightarrow> bool" where
  "strIncludes [] sub = (sub = [])"
| "strIncludes (x # xs) sub = (startsWith (x # xs) sub \<or> strIncludes xs sub)"

definition lowerChar :: "char \<Rightarrow> char" where
  "lowerChar c =
     (if (65::nat) \<le> of_char c \<and> of_char c \<le> (90::nat)
      then char_of (of_char c + (32::nat)) else c)"

definition toLowerCase :: "string \<Rightarrow> string" where
  "toLowerCase s = map lowerChar s"

definition isSpace :: "char \<Rightarrow> bool" where
  "isSpace c = (of_char c \<in> {9::nat, 10, 11, 12, 13, 32, 160})"

definition trim :: "string \<Rightarrow> string" where
  "trim s = rev (dropWhile isSpace (rev (dropWhile isSpace s)))"

section \<open>src/auth/validation.ts\<close>

text \<open>A character of the class \<open>[^\s@]\<close>.\<close>

definition emailChar :: "char \<Rightarrow> bool" where
  "emailChar c = (if isSpace c then False else c \<noteq> CHR ''@'')"

text \<open>
  The test \<open>/^[^\s@]+@[^\s@]+\.[^\s@]+$/\<close>: a non-empty local part of class characters,
  one \<open>@\<close>, and a rest of class characters with a dot that is neither its first nor its
  last character.
\<close>

definition emailRegexTest :: "string \<Rightarrow> bool" where
  "emailRegexTest s =
     (let localPart = takeWhile emailChar s;
          rest = dropWhile emailChar s
      in case rest of
           [] \<Rightarrow> False
         | c # domainPart \<Rightarrow>
             c = CHR ''@'' \<and> localPart \<noteq> [] \<and> list_all emailChar domainPart
             \<and> CHR ''.'' \<in> set (butlast (tl domainPart)))"

definition validateEmail :: "string \<Rightarrow> bool" where
  "validateEmail email =
     (if email = [] then False
      else let trimmed = trim email
           in if length trimmed = 0 \<or> length trimmed > 254 then False
              else emailRegexTest trimmed)"

section \<open>src/utils/errors.ts\<close>

text \<open>
  What a \<open>catch\<close> can receive: an \<open>AuthError\<close> with its code, the \<open>TypeError\<close> of a
  failed \<open>fetch\<close>, or any other \<open>Error\<close>.
\<close>

datatype thrown = AuthError AuthErrorCode | TypeError | OtherError

definition mapAuth0ErrorToCode :: "string \<Rightarrow> string \<Rightarrow> AuthErrorCode" where
  "mapAuth0ErrorToCode auth0Error errorDetail =
     (let errorLower = toLowerCase auth0Error;
          detailLower = toLowerCase errorDetail
      in if strIncludes errorLower ''unauthorized_email_domain''
            \<or> strIncludes errorLower ''email_domain''
            \<or> strIncludes detailLower ''unauthorized_email_domain''
            \<or> strIncludes detailLower ''email domain''
            \<or> strIncludes detailLower ''domain is not allowed''
            \<or> strIncludes detailLower ''email address is not allowed''
         then EMAIL_DOMAIN_NOT_ALLOWED
         else if auth0Error = ''invalid_request'' then INVALID_EMAIL
         else if auth0Error = ''invalid_grant'' then INVALID_OTP
         else if auth0Error = ''access_denied''
           then (if strIncludes detailLower ''domain'' then EMAIL_DOMAIN_NOT_ALLOWED
                 else INVALID_OTP)
         else if auth0Error = ''unauthorized_client'' then VALIDATION_ERROR
         else if auth0Error = ''too_many_requests'' then RATE_LIMITED
         else if auth0Error = ''server_error'' then AUTH0_UNAVAILABLE
         else VALIDATION_ERROR)"

text \<open>\<open>error.error_description ?? error.message ?? ''\<close>.\<close>

definition errorDetailOf :: "Auth0ErrorResponse \<Rightarrow> string" where
  "errorDetailOf e =
     (case err_error_description e of
        Some d \<Rightarrow> d
      | None \<Rightarrow> (case err_message e of Some m \<Rightarrow> m | None \<Rightarrow> []))"

definition fromAuth0Error :: "Auth0ErrorResponse \<Rightarrow> thrown" where
  "fromAuth0Error e = AuthError (mapAuth0ErrorToCode (err_error e) (errorDetailOf e))"

text \<open>\<open>AuthError.fromUnknown(error, defaultCode).code\<close>.\<close>

fun fromUnknown :: "thrown \<Rightarrow> AuthErrorCode \<Rightarrow> AuthErrorCode" where
  "fromUnknown (AuthError c) defaultCode = c"
| "fromUnknown TypeError defaultCode = defaultCode"
| "fromUnknown OtherError defaultCode = defaultCode"

section \<open>src/auth/api-client.ts\<close>

definition MAX_RETRIES :: nat where "MAX_RETRIES = 3"
definition INITIAL_RETRY_DELAY_MS :: real where "INITIAL_RETRY_DELAY_MS = 1000"
definition MAX_RETRY_DELAY_MS :: real where "MAX_RETRY_DELAY_MS = 5000"

text \<open>
  \<open>getRetryDelay\<close>.  The code computes in IEEE doubles: the first argument is the
  rounding of a real number to a double, which the product, the jitter and the sum
  each go through (\<open>Math.pow(2, attempt)\<close> and \<open>Math.min\<close> are exact).  The last
  argument is the value of \<open>Math.random()\<close>.
\<close>

definition getRetryDelay :: "(real \<Rightarrow> real) \<Rightarrow> nat \<Rightarrow> real \<Rightarrow> real" where
  "getRetryDelay toDouble attempt rnd =
     (let baseDelay = toDouble (INITIAL_RETRY_DELAY_MS * 2 ^ attempt);
          jitter = toDouble (rnd * 500)
      in min (toDouble (baseDelay + jitter)) MAX_RETRY_DELAY_MS)"


fun isRetryableError :: "thrown \<Rightarrow> bool" where
  "isRetryableError TypeError = True"
| "isRetryableError (AuthError c) = (c = NETWORK_ERROR \<or> c = AUTH0_UNAVAILABLE)"
| "isRetryableError OtherError = False"

text \<open>
  The body of an error answer, as \<open>response.json()\<close> and \<open>AuthError.fromAuth0Error\<close> meet
  it.  The cast to \<open>Auth0ErrorResponse\<close> is unchecked, so three cases differ:
  \<^item> \<open>Auth0Error e\<close>: JSON with a string \<open>error\<close> and a detail (\<open>error_description\<close>, else
    \<open>message\<close>) that is a string or absent; it is mapped to a code;
  \<^item> \<open>IllTypedJson\<close>: any other JSON value (\<open>null\<close>, no \<open>error\<close> string, a detail that is
    not a string): \<open>fromAuth0Error\<close> throws a \<open>TypeError\<close> on it;
  \<^item> \<open>NotJson\<close>: \<open>response.json()\<close> rejects with a \<open>SyntaxError\<close>.
\<close>

datatype errorJson = Auth0Error Auth0ErrorResponse | IllTypedJson | NotJson

text \<open>
  One call of \<open>fetch\<close>: it rejects (a \<open>TypeError\<close>), or answers with an ok status and a
  JSON body, or with an ok status and a body that \<open>response.json()\<close> rejects, or with a
  status outside 200..299 and a body (the body is read only for a status from 400 to
  499).
\<close>

datatype 'a fetchOutcome =
    FetchRejected
  | OkResponse 'a
  | OkNotJson
  | ErrorResponse nat errorJson

text \<open>
  The platform as the client sees it: the outcome of the \<open>n\<close>-th \<open>fetch\<close> of a request,
  the \<open>n\<close>-th value of \<open>Math.random()\<close>, and the rounding of double arithmetic.
\<close>

record 'a Network =
  fetchAt :: "nat \<Rightarrow> 'a fetchOutcome"
  randomAt :: "nat \<Rightarrow> real"
  toDouble :: "real \<Rightarrow> real"

text \<open>What the body of the \<open>try\<close> block does with one outcome: return a value or throw.\<close>

fun tryFetch :: "'a fetchOutcome \<Rightarrow> thrown + 'a" where
  "tryFetch FetchRejected = Inl TypeError"
| "tryFetch (OkResponse v) = Inr v"
| "tryFetch OkNotJson = Inl OtherError"
| "tryFetch (ErrorResponse status body) =
     (if status \<ge> 400 \<and> status < 500
      then (case body of
              Auth0Error e \<Rightarrow> Inl (fromAuth0Error e)
            | IllTypedJson \<Rightarrow> Inl TypeError
            | NotJson \<Rightarrow> Inl OtherError)
      else if status \<ge> 500 then Inl (AuthError AUTH0_UNAVAILABLE)
      else Inl (AuthError NETWORK_ERROR))"


text \<open>
  The result of \<open>fetchWithRetry\<close>, with what it did on the way: the number of \<open>fetch\<close>
  calls made and the delays slept, in order.
\<close>

record 'a FetchRun =
  outcome :: "thrown + 'a"
  attempts :: nat
  delays :: "real list"

text \<open>
  The \<open>for\<close> loop of \<open>fetchWithRetry\<close> from \<open>attempt\<close> on; \<open>lastError\<close> is the error of the
  previous iteration and \<open>slept\<close> the delays so far.
\<close>

function fetchLoop ::
  "'a Network \<Rightarrow> nat \<Rightarrow> thrown option \<Rightarrow> real list \<Rightarrow> 'a FetchRun" where
  "fetchLoop net attempt lastError slept =
     (if attempt < MAX_RETRIES then
        (case tryFetch (fetchAt net attempt) of
           Inr v \<Rightarrow> \<lparr>outcome = Inr v, attempts = attempt + 1, delays = slept\<rparr>
         | Inl err \<Rightarrow>
             if isRetryableError err then
               (if attempt < MAX_RETRIES - 1
                then fetchLoop net (attempt + 1) (Some err)
                       (slept @ [getRetryDelay (toDouble net) attempt
                                   (randomAt net attempt)])
                else fetchLoop net (attempt + 1) (Some err) slept)
             else \<lparr>outcome = Inl err, attempts = attempt + 1, delays = slept\<rparr>)
      else \<lparr>outcome = Inl (case lastError of Some err \<Rightarrow> err
                                | None \<Rightarrow> AuthError NETWORK_ERROR),
            attempts = attempt, delays = slept\<rparr>)"
  by pat_completeness auto
termination
  by (relation "measure (\<lambda>(net, attempt, lastError, slept). MAX_RETRIES - attempt)") auto

declare fetchLoop.simps [simp del]

definition fetchWithRetry :: "'a Network \<Rightarrow> 'a FetchRun" where
  "fetchWithRetry net = fetchLoop net 0 None []"

text \<open>
  The three operations build a request and call \<open>fetchWithRetry\<close>; the request itself
  plays no part in what follows, so each is \<open>fetchWithRetry\<close> on its network.
\<close>

definition initiatePasswordlessOTP :: "unit Network \<Rightarrow> unit FetchRun" where
  "initiatePasswordlessOTP net = fetchWithRetry net"

definition refreshTokens :: "TokenResponse Network \<Rightarrow> TokenResponse FetchRun" where
  "refreshTokens net = fetchWithRetry net"

section \<open>src/auth/state-machine.ts\<close>

text \<open>
  Every operation below reads the clock (\<open>Date.now()\<close>) as the one value \<open>now\<close>: the
  clock does not advance inside a single operation.  The storage calls are taken to
  succeed.  The members of a \<open>Promise.all\<close> group are run in the order written: they
  touch different keys, except for two reads of the refresh token in one group, which
  see the same entries and, when decryption fails, both remove them.
\<close>

record StateMachineState =
  sm_flowState :: AuthFlowState
  sm_email :: "string option"
  isAuthenticated :: bool
  sm_otpRequest :: "OTPRequest option"
  sm_userProfile :: "UserProfile option"
  sessionAge :: "int option"
  sm_expiresAt :: "int option"

definition getCurrentState :: "decryptFn \<Rightarrow> int \<Rightarrow> Store \<Rightarrow> StateMachineState \<times> Store" where
  "getCurrentState dec now s =
     (let flow = getFlowState s;
          (authState, s') = getCompleteAuthState dec s;
          otp = getOTPRequest s';
          profile = getUserProfile s';
          meta = getSessionMeta s';
          currentFlowState = (case flow of Some f \<Rightarrow> f | None \<Rightarrow> LOGGED_OUT)
      in (\<lparr>sm_flowState = currentFlowState,
           sm_email = (case authState of
                         Some a \<Rightarrow> Some (as_email a)
                       | None \<Rightarrow> map_option otp_email otp),
           isAuthenticated = (currentFlowState = AUTHENTICATED \<and> authState \<noteq> None),
           sm_otpRequest = otp,
           sm_userProfile = profile,
           sessionAge = map_option (\<lambda>m. (now - createdAt m) div 1000) meta,
           sm_expiresAt = map_option as_expiresAt authState\<rparr>, s'))"

definition OTP_EXPIRY_MS :: int where
  "OTP_EXPIRY_MS = 5 * 60 * 1000"

definition initializeStateMachine ::
  "decryptFn \<Rightarrow> int \<Rightarrow> Store \<Rightarrow> StateMachineState \<times> Store" where
  "initializeStateMachine dec now s =
     (let (authState, s1) = getCompleteAuthState dec s;
          (refreshToken, s2) = getRefreshToken dec s1;
          expired = isSessionExpired now s2
      in if authState \<noteq> None \<and> \<not> falsy refreshToken \<and> \<not> expired
         then getCurrentState dec now (setFlowState AUTHENTICATED s2)
         else if expired \<or> (authState = None \<and> \<not> falsy refreshToken)
         then getCurrentState dec now (clearAllAuthState s2)
         else (case getOTPRequest s2 of
                 Some r \<Rightarrow>
                   if now - requestedAt r < OTP_EXPIRY_MS
                   then getCurrentState dec now (setFlowState PENDING_OTP s2)
                   else getCurrentState dec now
                          (setFlowState LOGGED_OUT (clearOTPRequest s2))
               | None \<Rightarrow> getCurrentState dec now (setFlowState LOGGED_OUT s2)))"

text \<open>\<open>existingRequest?.email === email\<close>.\<close>

fun sameEmail :: "OTPRequest option \<Rightarrow> string \<Rightarrow> bool" where
  "sameEmail None email = False"
| "sameEmail (Some r) email = (otp_email r = email)"

definition transitionToOTPPending ::
  "decryptFn \<Rightarrow> int \<Rightarrow> string \<Rightarrow> string option \<Rightarrow> Store \<Rightarrow> StateMachineState \<times> Store" where
  "transitionToOTPPending dec now email verifier s =
     (let existingRequest = getOTPRequest s;
          request = \<lparr>otp_email = email,
                     requestedAt = now,
                     attemptCount = (if sameEmail existingRequest email
                                     then attemptCount (the existingRequest) else 0) + 1,
                     windowStart = (if sameEmail existingRequest email
                                    then windowStart (the existingRequest) else now),
                     codeVerifier = verifier\<rparr>
      in getCurrentState dec now (setFlowState PENDING_OTP (setOTPRequest request s)))"

definition transitionToAuthenticated ::
  "encryptFn \<Rightarrow> decryptFn \<Rightarrow> int \<Rightarrow> AuthState \<Rightarrow> Store \<Rightarrow> StateMachineState \<times> Store" where
  "transitionToAuthenticated enc dec now a s =
     getCurrentState dec now
       (setFlowState AUTHENTICATED (clearOTPRequest (storeAuthState enc now a s)))"

definition transitionToLoggedOut :: "decryptFn \<Rightarrow> int \<Rightarrow> Store \<Rightarrow> StateMachineState \<times> Store" where
  "transitionToLoggedOut dec now s = getCurrentState dec now (clearAllAuthState s)"

definition RATE_LIMIT_WINDOW_MS :: int where
  "RATE_LIMIT_WINDOW_MS = 15 * 60 * 1000"

definition MAX_OTP_REQUESTS :: int where
  "MAX_OTP_REQUESTS = 5"

record RateLimit =
  limited :: bool
  remainingAttempts :: int
  resetAt :: "int option"

definition isRateLimited :: "int \<Rightarrow> string \<Rightarrow> Store \<Rightarrow> RateLimit" where
  "isRateLimited now email s =
     (let request = getOTPRequest s
      in if sameEmail request email then
           (if now - windowStart (the request) > RATE_LIMIT_WINDOW_MS
            then \<lparr>limited = False, remainingAttempts = MAX_OTP_REQUESTS, resetAt = None\<rparr>
            else let remaining = MAX_OTP_REQUESTS - attemptCount (the request)
                 in \<lparr>limited = (remaining \<le> 0),
                     remainingAttempts = max 0 remaining,
                     resetAt = Some (windowStart (the request) + RATE_LIMIT_WINDOW_MS)\<rparr>)
         else \<lparr>limited = False, remainingAttempts = MAX_OTP_REQUESTS, resetAt = None\<rparr>)"

section \<open>src/auth/message-handlers.ts\<close>

text \<open>
  A response is the success payload or the error code (the message text is left out).
  A handler returns its response, the store it leaves, and what it asked of the
  provider: \<open>apiRuns\<close> holds, for each operation of the API client the handler ran, in
  order, the number of \<open>fetch\<close> calls that run made.  \<open>providerCalls\<close> is the number of
  operations run and \<open>fetchCalls\<close> the number of HTTP requests sent.
\<close>

datatype 'a AuthResponse = Success 'a | Failure AuthErrorCode

record 'a Handled =
  response :: "'a AuthResponse"
  storeAfter :: Store
  apiRuns :: "nat list"



record OTPResponseData =
  rd_email :: string
  rd_expiresAt :: int
  rd_remainingAttempts :: "int option"

definition handleInitiateOTP ::
  "decryptFn \<Rightarrow> unit Network \<Rightarrow> int \<Rightarrow> string \<Rightarrow> Store \<Rightarrow> OTPResponseData Handled" where
  "handleInitiateOTP dec net now email s =
     (if validateEmail email then
        (if limited (isRateLimited now email s)
         then \<lparr>response = Failure RATE_LIMITED, storeAfter = s, apiRuns = []\<rparr>
         else (case outcome (initiatePasswordlessOTP net) of
                 Inl err \<Rightarrow>
                   \<lparr>response = Failure (fromUnknown err NETWORK_ERROR), storeAfter = s,
                    apiRuns = [attempts (initiatePasswordlessOTP net)]\<rparr>
               | Inr u \<Rightarrow>
                   \<lparr>response = Success \<lparr>rd_email = email, rd_expiresAt = now + 5 * 60 * 1000,
                                        rd_remainingAttempts = None\<rparr>,
                    storeAfter = snd (transitionToOTPPending dec now email None s),
                    apiRuns = [attempts (initiatePasswordlessOTP net)]\<rparr>))
      else \<lparr>response = Failure INVALID_EMAIL, storeAfter = s, apiRuns = []\<rparr>)"

definition handleResendOTP ::
  "decryptFn \<Rightarrow> unit Network \<Rightarrow> int \<Rightarrow> string \<Rightarrow> Store \<Rightarrow> OTPResponseData Handled" where
  "handleResendOTP dec net now email s =
     (if validateEmail email then
        (if limited (isRateLimited now email s)
         then \<lparr>response = Failure RATE_LIMITED, storeAfter = s, apiRuns = []\<rparr>
         else (case outcome (initiatePasswordlessOTP net) of
                 Inl err \<Rightarrow>
                   \<lparr>response = Failure (fromUnknown err NETWORK_ERROR), storeAfter = s,
                    apiRuns = [attempts (initiatePasswordlessOTP net)]\<rparr>
               | Inr u \<Rightarrow>
                   (let s' = snd (transitionToOTPPending dec now email None s)
                    in \<lparr>response = Success
                          \<lparr>rd_email = email, rd_expiresAt = now + 5 * 60 * 1000,
                           rd_remainingAttempts =
                             Some (remainingAttempts (isRateLimited now email s'))\<rparr>,
                        storeAfter = s',
                        apiRuns = [attempts (initiatePasswordlessOTP net)]\<rparr>)))
      else \<lparr>response = Failure INVALID_EMAIL, storeAfter = s, apiRuns = []\<rparr>)"

text \<open>
  \<open>handleRefreshToken\<close>.  The \<open>catch\<close> receives what \<open>refreshTokens\<close> threw, takes its
  code with the default \<open>REFRESH_FAILED\<close>, and logs out only for the codes
  \<open>REFRESH_FAILED\<close> and \<open>VALIDATION_ERROR\<close>.
\<close>

definition handleRefreshToken ::
  "encryptFn \<Rightarrow> decryptFn \<Rightarrow> TokenResponse Network \<Rightarrow> int \<Rightarrow> Store \<Rightarrow> int Handled" where
  "handleRefreshToken enc dec net now s =
     (if isSessionExpired now s
      then \<lparr>response = Failure SESSION_EXPIRED_ERROR,
            storeAfter = snd (transitionToLoggedOut dec now s), apiRuns = []\<rparr>
      else (let (currentRefreshToken, s1) = getRefreshToken dec s
            in if falsy currentRefreshToken
               then \<lparr>response = Failure NOT_AUTHENTICATED, storeAfter = s1, apiRuns = []\<rparr>
               else (case getAuthState s1 of
                       None \<Rightarrow>
                         \<lparr>response = Failure NOT_AUTHENTICATED, storeAfter = s1,
                          apiRuns = []\<rparr>
                     | Some currentAuth \<Rightarrow>
                         (case outcome (refreshTokens net) of
                            Inr tokenResponse \<Rightarrow>
                              (let expiresAt = now + expires_in tokenResponse * 1000;
                                   authState =
                                     \<lparr>as_email = sa_email currentAuth,
                                      as_accessToken = access_token tokenResponse,
                                      as_refreshToken =
                                        (case refresh_token tokenResponse of
                                           Some t \<Rightarrow> t
                                         | None \<Rightarrow> the currentRefreshToken),
                                      as_expiresAt = expiresAt,
                                      as_idToken =
                                        (case id_token tokenResponse of
                                           Some t \<Rightarrow> Some t
                                         | None \<Rightarrow> sa_idToken currentAuth),
                                      as_sessionCreatedAt = sa_sessionCreatedAt currentAuth\<rparr>
                               in \<lparr>response = Success expiresAt,
                                   storeAfter =
                                     snd (transitionToAuthenticated enc dec now authState s1),
                                   apiRuns = [attempts (refreshTokens net)]\<rparr>)
                          | Inl err \<Rightarrow>
                              (let code = fromUnknown err REFRESH_FAILED
                               in \<lparr>response = Failure code,
                                   storeAfter =
                                     (if code = REFRESH_FAILED \<or> code = VALIDATION_ERROR
                                      then snd (transitionToLoggedOut dec now s1) else s1),
                                   apiRuns = [attempts (refreshTokens net)]\<rparr>)))))"

record AuthStateResponseData =
  ar_isAuthenticated :: bool
  ar_email :: "string option"
  ar_expiresAt :: "int option"
  ar_sessionAge :: "int option"
  ar_flowState :: AuthFlowState
  ar_otpRequest :: "OTPRequest option"

definition handleGetAuthState ::
  "decryptFn \<Rightarrow> int \<Rightarrow> Store \<Rightarrow> AuthStateResponseData Handled" where
  "handleGetAuthState dec now s =
     (let (state, s') = getCurrentState dec now s
      in \<lparr>response = Success \<lparr>ar_isAuthenticated = isAuthenticated state,
                               ar_email = sm_email state,
                               ar_expiresAt = sm_expiresAt state,
                               ar_sessionAge = sessionAge state,
                               ar_flowState = sm_flowState state,
                               ar_otpRequest = sm_otpRequest state\<rparr>,
          storeAfter = s', apiRuns = []\<rparr>)"

section \<open>src/auth/token-validation.ts\<close>

text \<open>
  A parsed JSON value.  \<open>JSON.parse(...) as IDTokenClaims\<close> is an unchecked cast, so the
  payload of a token is whatever JSON value its segment holds.  \<open>JNumber\<close> is a whole
  number (of a size that a double holds exactly), \<open>JFraction\<close> any other number, by
  its text; an object is the list of its entries, each key once, read by key.
\<close>

datatype json =
    JNull
  | JBool bool
  | JNumber int
  | JFraction string
  | JString string
  | JArray "json list"
  | JObject "(string \<times> json) list"









text \<open>The loaded configuration (\<open>getAuth0Config()\<close> with both variables set).\<close>

record Auth0Config =
  domain :: string
  clientId :: string
  cfg_audience :: "string option"










section \<open>The control path of the startup reconciliation\<close>

text \<open>
  Which branch \<open>initializeStateMachine\<close> takes, named by what it does, as a function of
  the stored facts it reads.  It is used to state what the routine leaves behind.
\<close>

datatype initBranch = RestoreSession | WipeAll | RestoreOTP | DropOTP | NothingPending

definition initBranchOf :: "decryptFn \<Rightarrow> int \<Rightarrow> Store \<Rightarrow> initBranch" where
  "initBranchOf dec now s =
     (if auth (sessionStore s) \<noteq> None \<and> \<not> falsy (fst (getRefreshToken dec s))
         \<and> \<not> isSessionExpired now s
      then RestoreSession
      else if isSessionExpired now s
              \<or> (auth (sessionStore s) = None \<and> \<not> falsy (fst (getRefreshToken dec s)))
      then WipeAll
      else (case otpRequest (sessionStore s) of
              None \<Rightarrow> NothingPending
            | Some r \<Rightarrow> if now - requestedAt r < OTP_EXPIRY_MS then RestoreOTP else DropOTP))"

section \<open>src/entrypoints/background.ts: the OTP messages\<close>

text \<open>
  \<open>processMessage\<close> dispatches \<open>INITIATE_OTP\<close> to \<open>handleInitiateOTP\<close> and \<open>RESEND_OTP\<close>
  to \<open>handleResendOTP\<close>.  A call is the message kind, the network it meets and the time
  it is processed at; \<open>runOTP\<close> processes a list of calls for one email in order, each
  on the store the previous one left, and returns what each handler returned and the
  final store.
\<close>

datatype otpKind = Initiate | Resend

fun otpHandler ::
  "otpKind \<Rightarrow> decryptFn \<Rightarrow> unit Network \<Rightarrow> int \<Rightarrow> string \<Rightarrow> Store \<Rightarrow> OTPResponseData Handled" where
  "otpHandler Initiate = handleInitiateOTP"
| "otpHandler Resend = handleResendOTP"

record otpCall =
  rq_kind :: otpKind
  rq_net :: "unit Network"
  rq_time :: int




section \<open>Concrete values for the closed instances\<close>

definition exampleEncrypt :: encryptFn where
  "exampleEncrypt token = (CHR ''#'' # token, ''nonce'')"

fun exampleDecrypt :: decryptFn where
  "exampleDecrypt (c # cs) iv = (if c = CHR ''#'' \<and> iv = ''nonce'' then Some cs else None)"
| "exampleDecrypt [] iv = None"


definition exampleSessionAuth :: SessionAuth where
  "exampleSessionAuth =
     \<lparr>sa_email = ''user@example.com'', sa_accessToken = ''at-1'', sa_expiresAt = 3600000,
      sa_idToken = None, sa_sessionCreatedAt = 0\<rparr>"

text \<open>A complete session created at time 0, with refresh token \<open>rt-1\<close>.\<close>

definition loggedInStore :: Store where
  "loggedInStore =
     \<lparr>sessionStore = \<lparr>auth = Some exampleSessionAuth, otpRequest = None, userProfile = None,
                      flowState = Some AUTHENTICATED\<rparr>,
      localStore = \<lparr>encryptedRefreshToken = Some ''#rt-1'', refreshTokenIV = Some ''nonce'',
                    sessionMeta = Some \<lparr>createdAt = 0, meta_email = ''user@example.com''\<rparr>\<rparr>\<rparr>"

text \<open>A session record without its refresh token, beside a fresh OTP request.\<close>

definition incompleteSessionStore :: Store where
  "incompleteSessionStore =
     \<lparr>sessionStore =
        \<lparr>auth = Some exampleSessionAuth,
         otpRequest = Some \<lparr>otp_email = ''user@example.com'', requestedAt = 900,
                            attemptCount = 1, windowStart = 900, codeVerifier = None\<rparr>,
         userProfile = None, flowState = Some AUTHENTICATED\<rparr>,
      localStore = \<lparr>encryptedRefreshToken = None, refreshTokenIV = None,
                    sessionMeta = Some \<lparr>createdAt = 0, meta_email = ''user@example.com''\<rparr>\<rparr>\<rparr>"

text \<open>A logged-out store holding only an OTP request made at time 900.\<close>

definition pendingOnlyStore :: Store where
  "pendingOnlyStore =
     \<lparr>sessionStore =
        \<lparr>auth = None,
         otpRequest = Some \<lparr>otp_email = ''user@example.com'', requestedAt = 900,
                            attemptCount = 1, windowStart = 900, codeVerifier = None\<rparr>,
         userProfile = None, flowState = Some PENDING_OTP\<rparr>,
      localStore = \<lparr>encryptedRefreshToken = None, refreshTokenIV = None, sessionMeta = None\<rparr>\<rparr>"

text \<open>
  A network that gives the same answer to every \<open>fetch\<close>, with \<open>Math.random()\<close> always 0
  and exact arithmetic.
\<close>

definition answering :: "'a fetchOutcome \<Rightarrow> 'a Network" where
  "answering x = \<lparr>fetchAt = (\<lambda>n. x), randomAt = (\<lambda>n. 0), toDouble = (\<lambda>x. x)\<rparr>"

definition exampleTokenResponse :: TokenResponse where
  "exampleTokenResponse =
     \<lparr>access_token = ''at-2'', refresh_token = Some ''rt-2'', id_token = None, expires_in = 3600\<rparr>"

text \<open>The error body \<open>{"error": e}\<close>.\<close>

definition errorBody :: "string \<Rightarrow> errorJson" where
  "errorBody e =
     Auth0Error \<lparr>err_error = e, err_error_description = None, err_message = None\<rparr>"

definition acceptedCall :: "otpKind \<Rightarrow> int \<Rightarrow> otpCall" where
  "acceptedCall k t = \<lparr>rq_kind = k, rq_net = answering (OkResponse ()), rq_time = t\<rparr>"


definition fiveCalls :: "otpCall list" where
  "fiveCalls = [acceptedCall Initiate 0, acceptedCall Resend 60000, acceptedCall Resend 120000,
                acceptedCall Initiate 180000, acceptedCall Resend 240000]"



text \<open>Five requests recorded for one email, the first at time 0.\<close>

definition exhaustedStore :: Store where
  "exhaustedStore =
     \<lparr>sessionStore =
        \<lparr>auth = None,
         otpRequest = Some \<lparr>otp_email = ''user@example.com'', requestedAt = 240000,
                            attemptCount = 5, windowStart = 0, codeVerifier = None\<rparr>,
         userProfile = None, flowState = Some PENDING_OTP\<rparr>,
      localStore = \<lparr>encryptedRefreshToken = None, refreshTokenIV = None, sessionMeta = None\<rparr>\<rparr>"







text \<open>
  The platform on which the repository's \<open>encrypt\<close> and \<open>decrypt\<close> are \<open>exampleEncrypt\<close>
  (with the iv \<open>nonce\<close>) and \<open>exampleDecrypt\<close>: base64 and the text codecs return their
  argument and the cipher puts a \<open>#\<close> in front.
\<close>

definition markCrypto :: "unit CryptoPlatform" where
  "markCrypto =
     \<lparr>btoa = (\<lambda>b. b), atob = Some, runtimeId = ''ext-1'',
      deriveKey = (\<lambda>material salt. ()),
      subtleEncrypt = (\<lambda>k iv p. CHR ''#'' # p),
      subtleDecrypt = (\<lambda>k iv c. exampleDecrypt c iv),
      textEncode = (\<lambda>t. t),
      textDecode = (\<lambda>b. b)\<rparr>"


section \<open>Properties\<close>

subsection \<open>Reading the refresh token\<close>

lemma getRefreshToken_cases:
  "getRefreshToken dec s =
     (case encryptedRefreshToken (localStore s) of
        None \<Rightarrow> (None, s)
      | Some c \<Rightarrow>
          (case refreshTokenIV (localStore s) of
             None \<Rightarrow> (None, s)
           | Some iv \<Rightarrow>
               if c = [] \<or> iv = [] then (None, s)
               else (case dec c iv of
                       Some t \<Rightarrow> (Some t, s)
                     | None \<Rightarrow> (None, clearRefreshToken s))))"
  by (simp add: getRefreshToken_def Let_def split: option.splits)

lemma exampleCipher_is_repository_cipher:
  "exampleEncrypt = encrypt markCrypto ''nonce''"
  "exampleDecrypt = decrypt markCrypto"
proof -
  show "exampleEncrypt = encrypt markCrypto ''nonce''"
    by (rule ext) (simp add: exampleEncrypt_def encrypt_def bufferToBase64_def markCrypto_def)
  show "exampleDecrypt = decrypt markCrypto"
    by (intro ext)
       (simp add: decrypt_def base64ToBuffer_def markCrypto_def split: option.splits)
qed

subsection \<open>The current state and the startup reconciliation\<close>

lemma getRefreshToken_session [simp]:
  "sessionStore (snd (getRefreshToken dec s)) = sessionStore s"
  by (simp add: getRefreshToken_cases clearRefreshToken_def split: option.splits)

lemma getRefreshToken_meta [simp]:
  "sessionMeta (localStore (snd (getRefreshToken dec s))) = sessionMeta (localStore s)"
  by (simp add: getRefreshToken_cases clearRefreshToken_def split: option.splits)

lemma getRefreshToken_again:
  "getRefreshToken dec (snd (getRefreshToken dec s)) = getRefreshToken dec s"
  by (simp add: getRefreshToken_cases clearRefreshToken_def split: option.splits)

lemma getRefreshToken_session_update:
  "getRefreshToken dec (s\<lparr>sessionStore := x\<rparr>)
     = (fst (getRefreshToken dec s), (snd (getRefreshToken dec s))\<lparr>sessionStore := x\<rparr>)"
  by (simp add: getRefreshToken_cases clearRefreshToken_def split: option.splits)

lemma getRefreshToken_cleared:
  "getRefreshToken dec (clearAllAuthState s) = (None, clearAllAuthState s)"
  by (simp add: getRefreshToken_cases clearAllAuthState_def setFlowState_def clearOTPRequest_def
        clearUserProfile_def clearSessionMeta_def clearRefreshToken_def clearAuthState_def)

lemma getCompleteAuthState_result:
  "getCompleteAuthState dec s =
     (if auth (sessionStore s) \<noteq> None \<and> \<not> falsy (fst (getRefreshToken dec s))
      then Some (withRefreshToken (the (auth (sessionStore s)))
                   (the (fst (getRefreshToken dec s))))
      else None,
      snd (getRefreshToken dec s))"
  by (simp add: getCompleteAuthState_def getAuthState_def Let_def split_def split: option.splits)

lemma getCurrentState_flowState:
  "sm_flowState (fst (getCurrentState dec now s))
     = (case flowState (sessionStore s) of Some f \<Rightarrow> f | None \<Rightarrow> LOGGED_OUT)"
  by (simp add: getCurrentState_def getFlowState_def Let_def split_def)

lemma getCurrentState_store:
  "snd (getCurrentState dec now s) = snd (getRefreshToken dec s)"
  by (simp add: getCurrentState_def getCompleteAuthState_result Let_def split_def)

lemma isSessionExpired_after_read [simp]:
  "isSessionExpired now (snd (getRefreshToken dec s)) = isSessionExpired now s"
  by (simp add: isSessionExpired_def getSessionMeta_def)

lemma initializeStateMachine_store:
  "snd (initializeStateMachine dec now s) =
     (case initBranchOf dec now s of
        RestoreSession \<Rightarrow> setFlowState AUTHENTICATED (snd (getRefreshToken dec s))
      | WipeAll \<Rightarrow> clearAllAuthState (snd (getRefreshToken dec s))
      | RestoreOTP \<Rightarrow> setFlowState PENDING_OTP (snd (getRefreshToken dec s))
      | DropOTP \<Rightarrow> setFlowState LOGGED_OUT (clearOTPRequest (snd (getRefreshToken dec s)))
      | NothingPending \<Rightarrow> setFlowState LOGGED_OUT (snd (getRefreshToken dec s)))"
  by (simp add: initializeStateMachine_def initBranchOf_def getCompleteAuthState_result
        getRefreshToken_again getCurrentState_store getRefreshToken_cleared
        setFlowState_def clearOTPRequest_def getRefreshToken_session_update getOTPRequest_def
        Let_def split_def split: option.splits)

lemma initializeStateMachine_flowState:
  "sm_flowState (fst (initializeStateMachine dec now s)) =
     (case initBranchOf dec now s of
        RestoreSession \<Rightarrow> AUTHENTICATED
      | WipeAll \<Rightarrow> LOGGED_OUT
      | RestoreOTP \<Rightarrow> PENDING_OTP
      | DropOTP \<Rightarrow> LOGGED_OUT
      | NothingPending \<Rightarrow> LOGGED_OUT)"
  by (simp add: initializeStateMachine_def initBranchOf_def getCompleteAuthState_result
        getRefreshToken_again getCurrentState_flowState clearAllAuthState_def
        setFlowState_def clearOTPRequest_def getOTPRequest_def
        Let_def split_def split: option.splits)

lemma initBranchOf_RestoreSession:
  "initBranchOf dec now s = RestoreSession \<longleftrightarrow>
     auth (sessionStore s) \<noteq> None \<and> \<not> falsy (fst (getRefreshToken dec s))
     \<and> \<not> isSessionExpired now s"
  by (simp add: initBranchOf_def split: option.splits)

lemma initBranchOf_WipeAll:
  "initBranchOf dec now s = WipeAll \<longleftrightarrow>
     isSessionExpired now s
     \<or> (auth (sessionStore s) = None \<and> \<not> falsy (fst (getRefreshToken dec s)))"
  by (auto simp: initBranchOf_def split: option.splits)

lemma isSessionExpired_session_update [simp]:
  "isSessionExpired now (s\<lparr>sessionStore := x\<rparr>) = isSessionExpired now s"
  by (simp add: isSessionExpired_def getSessionMeta_def)

lemma isSessionExpired_cleared [simp]:
  "isSessionExpired now (clearAllAuthState s)"
  by (simp add: isSessionExpired_def getSessionMeta_def clearAllAuthState_def setFlowState_def
        clearOTPRequest_def clearUserProfile_def clearSessionMeta_def)

lemma transitionToLoggedOut_store:
  "snd (transitionToLoggedOut dec now s) = clearAllAuthState s"
  by (simp add: transitionToLoggedOut_def getCurrentState_store getRefreshToken_cleared)

lemma clearAllAuthState_fields:
  "sessionStore (clearAllAuthState s)
     = \<lparr>auth = None, otpRequest = None, userProfile = None, flowState = Some LOGGED_OUT\<rparr>
   \<and> localStore (clearAllAuthState s)
     = \<lparr>encryptedRefreshToken = None, refreshTokenIV = None, sessionMeta = None\<rparr>"
  by (simp add: clearAllAuthState_def setFlowState_def clearOTPRequest_def clearUserProfile_def
        clearSessionMeta_def clearRefreshToken_def clearAuthState_def)

subsection \<open>The retry loop, unfolded\<close>

lemma fetchWithRetry_unfolded:
  "fetchWithRetry net =
     (case tryFetch (fetchAt net 0) of
        Inr v \<Rightarrow> \<lparr>outcome = Inr v, attempts = 1, delays = []\<rparr>
      | Inl e0 \<Rightarrow>
          if \<not> isRetryableError e0 then \<lparr>outcome = Inl e0, attempts = 1, delays = []\<rparr>
          else (case tryFetch (fetchAt net 1) of
                  Inr v \<Rightarrow> \<lparr>outcome = Inr v, attempts = 2,
                            delays = [getRetryDelay (toDouble net) 0 (randomAt net 0)]\<rparr>
                | Inl e1 \<Rightarrow>
                    if \<not> isRetryableError e1
                    then \<lparr>outcome = Inl e1, attempts = 2,
                          delays = [getRetryDelay (toDouble net) 0 (randomAt net 0)]\<rparr>
                    else (case tryFetch (fetchAt net 2) of
                            Inr v \<Rightarrow>
                              \<lparr>outcome = Inr v, attempts = 3,
                               delays = [getRetryDelay (toDouble net) 0 (randomAt net 0),
                                         getRetryDelay (toDouble net) 1 (randomAt net 1)]\<rparr>
                          | Inl e2 \<Rightarrow>
                              \<lparr>outcome = Inl e2, attempts = 3,
                               delays = [getRetryDelay (toDouble net) 0 (randomAt net 0),
                                         getRetryDelay (toDouble net) 1 (randomAt net 1)]\<rparr>)))"
  by (simp add: fetchWithRetry_def fetchLoop.simps MAX_RETRIES_def numeral_2_eq_2
        split: sum.splits)

lemma fetchWithRetry_ok [simp]:
  "fetchWithRetry (answering (OkResponse v)) = \<lparr>outcome = Inr v, attempts = 1, delays = []\<rparr>"
  by (simp add: fetchWithRetry_unfolded answering_def)

lemma mapAuth0ErrorToCode_examples:
  "mapAuth0ErrorToCode ''invalid_grant'' [] = INVALID_OTP"
  "mapAuth0ErrorToCode ''unauthorized_client'' [] = VALIDATION_ERROR"
  "mapAuth0ErrorToCode ''server_error'' [] = AUTH0_UNAVAILABLE"
  by (simp_all add: mapAuth0ErrorToCode_def toLowerCase_def lowerChar_def)

lemma fetchWithRetry_client_error:
  "fetchWithRetry (answering (ErrorResponse 403 (errorBody ''invalid_grant'')))
     = \<lparr>outcome = Inl (AuthError INVALID_OTP), attempts = 1, delays = []\<rparr>"
  "fetchWithRetry (answering (ErrorResponse 401 (errorBody ''unauthorized_client'')))
     = \<lparr>outcome = Inl (AuthError VALIDATION_ERROR), attempts = 1, delays = []\<rparr>"
  by (simp_all add: fetchWithRetry_unfolded answering_def fromAuth0Error_def errorBody_def
        errorDetailOf_def mapAuth0ErrorToCode_examples)

lemma mapAuth0ErrorToCode_not_network:
  "mapAuth0ErrorToCode e d \<noteq> NETWORK_ERROR"
  by (simp add: mapAuth0ErrorToCode_def Let_def)











subsection \<open>The refresh handler\<close>

lemma handleRefreshToken_expired:
  "isSessionExpired now s \<Longrightarrow>
   handleRefreshToken enc dec net now s =
     \<lparr>response = Failure SESSION_EXPIRED_ERROR, storeAfter = clearAllAuthState s,
      apiRuns = []\<rparr>"
  by (simp add: handleRefreshToken_def transitionToLoggedOut_store)

lemma loggedInStore_reads:
  "isSessionExpired 1000 loggedInStore = False"
  "isSessionExpired 2000 loggedInStore = False"
  "getRefreshToken exampleDecrypt loggedInStore = (Some ''rt-1'', loggedInStore)"
  "getAuthState loggedInStore = Some exampleSessionAuth"
  by (simp_all add: isSessionExpired_def getSessionMeta_def getRefreshToken_cases getAuthState_def
        loggedInStore_def SEVEN_DAYS_MS_def)

lemma handleRefreshToken_success_effect:
  assumes "response (handleRefreshToken enc dec net now s) = Success x"
  shows "\<exists>a tr. auth (sessionStore s) = Some a
           \<and> outcome (refreshTokens net) = Inr tr
           \<and> x = now + expires_in tr * 1000
           \<and> auth (sessionStore (storeAfter (handleRefreshToken enc dec net now s)))
               = Some \<lparr>sa_email = sa_email a, sa_accessToken = access_token tr,
                       sa_expiresAt = now + expires_in tr * 1000,
                       sa_idToken = (case id_token tr of Some t \<Rightarrow> Some t | None \<Rightarrow> sa_idToken a),
                       sa_sessionCreatedAt = sa_sessionCreatedAt a\<rparr>
           \<and> sessionMeta (localStore (storeAfter (handleRefreshToken enc dec net now s)))
               = Some \<lparr>createdAt = now, meta_email = sa_email a\<rparr>"
  using assms
  by (auto simp: handleRefreshToken_def Let_def split_def getAuthState_def
        transitionToAuthenticated_def getCurrentState_store storeAuthState_def
        setFlowState_def clearOTPRequest_def setSessionMeta_def setRefreshToken_def
        setAuthState_def omitRefreshToken_def
        split: if_splits option.splits sum.splits)

subsection \<open>The OTP handlers\<close>

lemma validateEmail_example: "validateEmail ''user@example.com''"
  by (simp add: validateEmail_def trim_def isSpace_def emailRegexTest_def emailChar_def)

lemma transitionToOTPPending_request:
  "otpRequest (sessionStore (snd (transitionToOTPPending dec now email v s)))
     = Some \<lparr>otp_email = email, requestedAt = now,
             attemptCount = (if sameEmail (otpRequest (sessionStore s)) email
                             then attemptCount (the (otpRequest (sessionStore s))) else 0) + 1,
             windowStart = (if sameEmail (otpRequest (sessionStore s)) email
                            then windowStart (the (otpRequest (sessionStore s))) else now),
             codeVerifier = v\<rparr>"
  by (simp add: transitionToOTPPending_def getCurrentState_store getOTPRequest_def
        setFlowState_def setOTPRequest_def Let_def)

lemma otpHandler_accepted:
  assumes "validateEmail email"
    and "\<not> limited (isRateLimited now email s)"
    and "outcome (initiatePasswordlessOTP net) = Inr u"
  shows "(\<exists>x. response (otpHandler k dec net now email s) = Success x)
         \<and> apiRuns (otpHandler k dec net now email s) = [attempts (initiatePasswordlessOTP net)]
         \<and> storeAfter (otpHandler k dec net now email s)
             = snd (transitionToOTPPending dec now email None s)"
  using assms
  by (cases k) (simp_all add: handleInitiateOTP_def handleResendOTP_def Let_def)



lemma isRateLimited_limited:
  "limited (isRateLimited now email s) \<longleftrightarrow>
     (\<exists>r. otpRequest (sessionStore s) = Some r \<and> otp_email r = email
          \<and> now - windowStart r \<le> RATE_LIMIT_WINDOW_MS \<and> attemptCount r \<ge> MAX_OTP_REQUESTS)"
  by (cases "otpRequest (sessionStore s)")
     (auto simp: isRateLimited_def getOTPRequest_def Let_def)






lemma exhaustedStore_not_limited:
  "limited (isRateLimited 900000 ''user@example.com'' exhaustedStore)"
  "\<not> limited (isRateLimited 900001 ''user@example.com'' exhaustedStore)"
  by (simp_all add: isRateLimited_def getOTPRequest_def exhaustedStore_def Let_def
        RATE_LIMIT_WINDOW_MS_def MAX_OTP_REQUESTS_def)

lemma otp_other_email_starts_window:
  assumes "validateEmail email"
    and "\<not> sameEmail (getOTPRequest s) email"
    and "outcome (initiatePasswordlessOTP net) = Inr u"
  shows "getOTPRequest (storeAfter (otpHandler k dec net now email s))
           = Some \<lparr>otp_email = email, requestedAt = now, attemptCount = 1,
                   windowStart = now, codeVerifier = None\<rparr>"
proof -
  have notlim: "\<not> limited (isRateLimited now email s)"
    using assms(2)
    by (cases "otpRequest (sessionStore s)") (auto simp: isRateLimited_limited getOTPRequest_def)
  show ?thesis
    using otpHandler_accepted [OF assms(1) notlim assms(3), of k dec] assms(2)
    by (simp add: getOTPRequest_def transitionToOTPPending_request)
qed

subsection \<open>Parsing a token\<close>




subsection \<open>The OTP rate limit (C1)\<close>






subsection \<open>A failed refresh (C2)\<close>

lemma mapAuth0ErrorToCode_not_refresh_failed:
  "mapAuth0ErrorToCode e d \<noteq> REFRESH_FAILED"
  by (simp add: mapAuth0ErrorToCode_def Let_def)

text \<open>
  Which failures log out.  Whenever a \<open>RefreshToken\<close> request is answered with the error
  code \<open>REFRESH_FAILED\<close> or \<open>VALIDATION_ERROR\<close>, all auth storage is cleared in both
  partitions and the flow state is \<open>LOGGED_OUT\<close>; every later \<open>RefreshToken\<close> request on
  that store is answered with \<open>SESSION_EXPIRED\<close> without running an operation of the
  API client, because the session metadata is gone and a missing metadata entry counts
  as an expired session, which the handler checks before it looks for a refresh token.
\<close>

lemma handleRefreshToken_logout_codes:
  assumes "response (handleRefreshToken enc dec net now s) = Failure code"
    and "code = REFRESH_FAILED \<or> code = VALIDATION_ERROR"
  shows "sessionStore (storeAfter (handleRefreshToken enc dec net now s))
           = \<lparr>auth = None, otpRequest = None, userProfile = None, flowState = Some LOGGED_OUT\<rparr>
         \<and> localStore (storeAfter (handleRefreshToken enc dec net now s))
           = \<lparr>encryptedRefreshToken = None, refreshTokenIV = None, sessionMeta = None\<rparr>
         \<and> (\<forall>net' now'.
               handleRefreshToken enc dec net' now'
                   (storeAfter (handleRefreshToken enc dec net now s))
                 = \<lparr>response = Failure SESSION_EXPIRED_ERROR,
                    storeAfter = clearAllAuthState
                                   (storeAfter (handleRefreshToken enc dec net now s)),
                    apiRuns = []\<rparr>)"
proof -
  have after: "storeAfter (handleRefreshToken enc dec net now s)
                 = clearAllAuthState (snd (getRefreshToken dec s))"
    using assms
    by (auto simp: handleRefreshToken_def transitionToLoggedOut_store Let_def split_def
          split: if_splits option.splits sum.splits)
  show ?thesis
    unfolding after
    by (simp add: clearAllAuthState_fields handleRefreshToken_expired)
qed

text \<open>
  A 4xx answer to the first \<open>fetch\<close> whose body is an Auth0 error object is reported with
  the code the body maps to, unless that code is \<open>AUTH0_UNAVAILABLE\<close> and the request
  is retried.  That code is never \<open>REFRESH_FAILED\<close>, and the session is logged out
  only when it is \<open>VALIDATION_ERROR\<close>.
\<close>

lemma handleRefreshToken_client_error_code:
  assumes x: "fetchAt net 0 = ErrorResponse st (Auth0Error e)" and st: "400 \<le> st" "st < 500"
    and code: "mapAuth0ErrorToCode (err_error e) (errorDetailOf e) \<noteq> AUTH0_UNAVAILABLE"
    and live: "\<not> isSessionExpired now s" "fst (getRefreshToken dec s) = Some t" "t \<noteq> []"
      "auth (sessionStore s) = Some a"
  shows "response (handleRefreshToken enc dec net now s)
           = Failure (mapAuth0ErrorToCode (err_error e) (errorDetailOf e))
         \<and> apiRuns (handleRefreshToken enc dec net now s) = [1]
         \<and> (mapAuth0ErrorToCode (err_error e) (errorDetailOf e) \<noteq> VALIDATION_ERROR
              \<longrightarrow> storeAfter (handleRefreshToken enc dec net now s) = s)"
proof -
  let ?c = "mapAuth0ErrorToCode (err_error e) (errorDetailOf e)"
  have thrown: "tryFetch (fetchAt net 0) = Inl (AuthError ?c)"
    using x st by (simp add: fromAuth0Error_def)
  have final: "\<not> isRetryableError (AuthError ?c)"
    using code by (simp add: mapAuth0ErrorToCode_not_network)
  have run: "refreshTokens net = \<lparr>outcome = Inl (AuthError ?c), attempts = 1, delays = []\<rparr>"
    using thrown final by (simp add: refreshTokens_def fetchWithRetry_unfolded)
  have same: "snd (getRefreshToken dec s) = s"
    using live(2) by (auto simp: getRefreshToken_cases split: option.splits if_splits)
  show ?thesis
    using live same
    by (simp add: handleRefreshToken_def run Let_def split_def getAuthState_def
          mapAuth0ErrorToCode_not_refresh_failed)
qed

text \<open>
  C2.  A complete session, created at time 0 with refresh token \<open>rt-1\<close>; a
  \<open>RefreshToken\<close> request is processed at time 1000 and the provider answers the refresh
  call with 403 and the body \<open>{"error": "invalid_grant"}\<close>, its answer to a refresh
  token that is revoked or expired.  The request is not retried.  The handler returns
  the code \<open>INVALID_OTP\<close>, not \<open>REFRESH_FAILED\<close>, and leaves the store exactly as it was:
  the flow state is still \<open>AUTHENTICATED\<close>, the session record and the encrypted refresh
  token are still there, and the derived view still reports an authenticated session.
  A second request, answered the same, ends the same way; it is not answered
  \<open>NOT_AUTHENTICATED\<close>.
\<close>

theorem handleRefreshToken_invalid_grant_keeps_session:
  "handleRefreshToken exampleEncrypt exampleDecrypt
       (answering (ErrorResponse 403 (errorBody ''invalid_grant''))) 1000 loggedInStore
     = \<lparr>response = Failure INVALID_OTP, storeAfter = loggedInStore, apiRuns = [1]\<rparr>
   \<and> flowState (sessionStore loggedInStore) = Some AUTHENTICATED
   \<and> isAuthenticated (fst (getCurrentState exampleDecrypt 1000 loggedInStore))
   \<and> response (handleRefreshToken exampleEncrypt exampleDecrypt
         (answering (ErrorResponse 403 (errorBody ''invalid_grant''))) 2000
         (storeAfter (handleRefreshToken exampleEncrypt exampleDecrypt
            (answering (ErrorResponse 403 (errorBody ''invalid_grant''))) 1000 loggedInStore)))
     = Failure INVALID_OTP"
proof -
  have run: "refreshTokens (answering (ErrorResponse 403 (errorBody ''invalid_grant'')))
               = \<lparr>outcome = Inl (AuthError INVALID_OTP), attempts = 1, delays = []\<rparr>"
    by (simp add: refreshTokens_def fetchWithRetry_unfolded answering_def errorBody_def
          fromAuth0Error_def errorDetailOf_def mapAuth0ErrorToCode_def toLowerCase_def
          lowerChar_def)
  have first: "handleRefreshToken exampleEncrypt exampleDecrypt
       (answering (ErrorResponse 403 (errorBody ''invalid_grant''))) 1000 loggedInStore
     = \<lparr>response = Failure INVALID_OTP, storeAfter = loggedInStore, apiRuns = [1]\<rparr>"
    by (simp add: handleRefreshToken_def loggedInStore_reads run)
  have second: "response (handleRefreshToken exampleEncrypt exampleDecrypt
       (answering (ErrorResponse 403 (errorBody ''invalid_grant''))) 2000 loggedInStore)
     = Failure INVALID_OTP"
    by (simp add: handleRefreshToken_def loggedInStore_reads run)
  have flow: "flowState (sessionStore loggedInStore) = Some AUTHENTICATED"
    by (simp add: loggedInStore_def)
  have view: "isAuthenticated (fst (getCurrentState exampleDecrypt 1000 loggedInStore))"
    by (simp add: getCurrentState_def getCompleteAuthState_result getFlowState_def
          loggedInStore_def getRefreshToken_cases exampleSessionAuth_def Let_def split_def)
  show ?thesis
    unfolding first
    using first second flow view by simp
qed

text \<open>
  For comparison, 401 \<open>unauthorized_client\<close> on the same session: the handler returns
  \<open>VALIDATION_ERROR\<close> and logs out, and the next \<open>RefreshToken\<close> request returns
  \<open>SESSION_EXPIRED\<close>.
\<close>

lemma handleRefreshToken_unauthorized_client:
  "response (handleRefreshToken exampleEncrypt exampleDecrypt
       (answering (ErrorResponse 401 (errorBody ''unauthorized_client''))) 1000 loggedInStore)
     = Failure VALIDATION_ERROR
   \<and> flowState (sessionStore (storeAfter (handleRefreshToken exampleEncrypt exampleDecrypt
       (answering (ErrorResponse 401 (errorBody ''unauthorized_client''))) 1000 loggedInStore)))
     = Some LOGGED_OUT
   \<and> response (handleRefreshToken exampleEncrypt exampleDecrypt
         (answering (OkResponse exampleTokenResponse)) 2000
         (storeAfter (handleRefreshToken exampleEncrypt exampleDecrypt
            (answering (ErrorResponse 401 (errorBody ''unauthorized_client''))) 1000 loggedInStore)))
     = Failure SESSION_EXPIRED_ERROR"
proof -
  have r: "response (handleRefreshToken exampleEncrypt exampleDecrypt
       (answering (ErrorResponse 401 (errorBody ''unauthorized_client''))) 1000 loggedInStore)
     = Failure VALIDATION_ERROR"
    by (simp add: handleRefreshToken_def loggedInStore_reads refreshTokens_def
          fetchWithRetry_client_error)
  show ?thesis
    using r handleRefreshToken_logout_codes [OF r]
    by simp
qed
subsection \<open>The session window across a refresh (C3)\<close>

text \<open>
  C3, evaluated on the code.  A session created at time 0 is refreshed successfully at
  time 600000000, a little under 7 days later.  The \<open>sessionCreatedAt\<close> field of the
  session-storage record keeps the value 0, but the durable \<open>sessionMeta.createdAt\<close>, the
  value the 7-day check reads, is overwritten with 600000000.  At time 700000000, more
  than 7 days after creation, the session before the refresh counts as expired and the
  session after the refresh does not.
\<close>

theorem handleRefreshToken_resets_session_window:
  "isSessionExpired 700000000 loggedInStore
   \<and> response (handleRefreshToken exampleEncrypt exampleDecrypt
        (answering (OkResponse exampleTokenResponse)) 600000000 loggedInStore)
      = Success 603600000
   \<and> sessionMeta (localStore (storeAfter (handleRefreshToken exampleEncrypt exampleDecrypt
        (answering (OkResponse exampleTokenResponse)) 600000000 loggedInStore)))
      = Some \<lparr>createdAt = 600000000, meta_email = ''user@example.com''\<rparr>
   \<and> map_option sa_sessionCreatedAt
        (auth (sessionStore (storeAfter (handleRefreshToken exampleEncrypt exampleDecrypt
          (answering (OkResponse exampleTokenResponse)) 600000000 loggedInStore))))
      = Some 0
   \<and> isSessionExpired 700000000 (storeAfter (handleRefreshToken exampleEncrypt exampleDecrypt
        (answering (OkResponse exampleTokenResponse)) 600000000 loggedInStore)) = False"
proof -
  have r: "response (handleRefreshToken exampleEncrypt exampleDecrypt
        (answering (OkResponse exampleTokenResponse)) 600000000 loggedInStore)
      = Success 603600000"
    by (simp add: handleRefreshToken_def isSessionExpired_def getSessionMeta_def
          getRefreshToken_cases getAuthState_def loggedInStore_def SEVEN_DAYS_MS_def
          refreshTokens_def exampleTokenResponse_def)
  show ?thesis
    using r handleRefreshToken_success_effect [OF r]
    by (auto simp: isSessionExpired_def getSessionMeta_def SEVEN_DAYS_MS_def loggedInStore_def
          exampleSessionAuth_def)
qed

subsection \<open>The startup reconciliation (C4)\<close>

text \<open>What the routine derives, for every store.\<close>

lemma initializeStateMachine_derivation:
  "sm_flowState (fst (initializeStateMachine dec now s)) =
     (if auth (sessionStore s) \<noteq> None \<and> \<not> falsy (fst (getRefreshToken dec s))
         \<and> \<not> isSessionExpired now s
      then AUTHENTICATED
      else if isSessionExpired now s
              \<or> (auth (sessionStore s) = None \<and> \<not> falsy (fst (getRefreshToken dec s)))
      then LOGGED_OUT
      else (case otpRequest (sessionStore s) of
              None \<Rightarrow> LOGGED_OUT
            | Some r \<Rightarrow> if now - requestedAt r < OTP_EXPIRY_MS then PENDING_OTP else LOGGED_OUT))"
  by (simp add: initializeStateMachine_flowState initBranchOf_def split: option.splits)

text \<open>
  A logged-out store with an OTP request made 100 ms ago: there is no session metadata,
  so the session counts as expired, everything is wiped and the pending request is lost.
\<close>

lemma initializeStateMachine_drops_pending_otp:
  "sm_flowState (fst (initializeStateMachine exampleDecrypt 1000 pendingOnlyStore)) = LOGGED_OUT
   \<and> otpRequest (sessionStore (snd (initializeStateMachine exampleDecrypt 1000 pendingOnlyStore)))
     = None"
  by (simp add: initializeStateMachine_flowState initializeStateMachine_store initBranchOf_def
        getRefreshToken_cases isSessionExpired_def getSessionMeta_def
        pendingOnlyStore_def clearAllAuthState_def setFlowState_def clearOTPRequest_def
        clearUserProfile_def clearSessionMeta_def clearRefreshToken_def clearAuthState_def)

text \<open>
  C4, evaluated on the code.  The session-storage auth record is present, the refresh
  token is absent, the session metadata is 1000 ms old and an OTP request is 100 ms old.
  Only one half of the session is present, yet nothing is wiped: the routine answers
  \<open>PENDING_OTP\<close> and the store it leaves differs from the one it found only in the
  flow-state entry, so the auth record is still there.
\<close>

theorem initializeStateMachine_keeps_incomplete_session:
  "sm_flowState (fst (initializeStateMachine exampleDecrypt 1000 incompleteSessionStore))
     = PENDING_OTP
   \<and> snd (initializeStateMachine exampleDecrypt 1000 incompleteSessionStore)
     = setFlowState PENDING_OTP incompleteSessionStore
   \<and> auth (sessionStore (snd (initializeStateMachine exampleDecrypt 1000 incompleteSessionStore)))
     = Some exampleSessionAuth"
  by (simp add: initializeStateMachine_flowState initializeStateMachine_store initBranchOf_def
        getRefreshToken_cases isSessionExpired_def getSessionMeta_def SEVEN_DAYS_MS_def
        OTP_EXPIRY_MS_def incompleteSessionStore_def setFlowState_def)

subsection \<open>The encrypted refresh token (C5)\<close>







subsection \<open>ID token validation (C6)\<close>



subsection \<open>The retry policy (C7)\<close>



subsection \<open>The rate-limit window after it has elapsed (C8)\<close>

text \<open>
  C8, evaluated on the code.  The pending request for \<open>user@example.com\<close> records five
  requests in a window that started at time 0.  A new request for the same email at
  time 900001, after the 15-minute window has elapsed, is accepted, by \<open>InitiateOTP\<close>
  and by \<open>ResendOTP\<close> alike, and leaves \<open>attemptCount = 6\<close> and \<open>windowStart = 0\<close>: the
  count is not reset to 1 and the window does not restart.  (For a different email the
  count is 1 and the window starts at the current time: \<open>otp_other_email_starts_window\<close>.)
\<close>

theorem otp_window_not_reset_same_email:
  "getOTPRequest (storeAfter (handleInitiateOTP exampleDecrypt (answering (OkResponse ()))
        900001 ''user@example.com'' exhaustedStore))
     = Some \<lparr>otp_email = ''user@example.com'', requestedAt = 900001, attemptCount = 6,
             windowStart = 0, codeVerifier = None\<rparr>
   \<and> getOTPRequest (storeAfter (handleResendOTP exampleDecrypt (answering (OkResponse ()))
        900001 ''user@example.com'' exhaustedStore))
     = Some \<lparr>otp_email = ''user@example.com'', requestedAt = 900001, attemptCount = 6,
             windowStart = 0, codeVerifier = None\<rparr>"
  using otpHandler_accepted [OF validateEmail_example exhaustedStore_not_limited(2),
          of "answering (OkResponse ())" "()" Initiate exampleDecrypt]
        otpHandler_accepted [OF validateEmail_example exhaustedStore_not_limited(2),
          of "answering (OkResponse ())" "()" Resend exampleDecrypt]
  by (simp add: initiatePasswordlessOTP_def getOTPRequest_def transitionToOTPPending_request
        exhaustedStore_def)

subsection \<open>Idempotence of the startup reconciliation (C9)\<close>

text \<open>
  C9.  Running \<open>initializeStateMachine\<close> a second time on the store the first run left,
  with no event in between, yields the same flow state, provided the clock has not
  crossed a deadline between the two runs: the 7-day session check and the 5-minute
  check of the stored OTP request give the same answers at the second time \<open>now'\<close> as
  at the first time \<open>now\<close>.
\<close>

theorem initializeStateMachine_idempotent:
  assumes expiry: "isSessionExpired now' s = isSessionExpired now s"
    and fresh: "case getOTPRequest s of
           None \<Rightarrow> True
         | Some r \<Rightarrow> (now' - requestedAt r < OTP_EXPIRY_MS) = (now - requestedAt r < OTP_EXPIRY_MS)"
  shows "sm_flowState (fst (initializeStateMachine dec now'
                        (snd (initializeStateMachine dec now s))))
     = sm_flowState (fst (initializeStateMachine dec now s))"
proof (cases "initBranchOf dec now s")
  case RestoreSession
  then have "initBranchOf dec now' (setFlowState AUTHENTICATED (snd (getRefreshToken dec s)))
               = RestoreSession"
    using expiry
    by (simp add: initBranchOf_RestoreSession setFlowState_def getRefreshToken_session_update
          getRefreshToken_again)
  with RestoreSession show ?thesis
    by (simp add: initializeStateMachine_flowState initializeStateMachine_store)
next
  case WipeAll
  have "initBranchOf dec now' (clearAllAuthState (snd (getRefreshToken dec s))) = WipeAll"
    by (simp add: initBranchOf_WipeAll)
  with WipeAll show ?thesis
    by (simp add: initializeStateMachine_flowState initializeStateMachine_store)
next
  case RestoreOTP
  then have "initBranchOf dec now' (setFlowState PENDING_OTP (snd (getRefreshToken dec s)))
               = RestoreOTP"
    using expiry fresh
    by (auto simp: initBranchOf_def setFlowState_def getRefreshToken_session_update
          getRefreshToken_again getOTPRequest_def split: option.splits if_splits)
  with RestoreOTP show ?thesis
    by (simp add: initializeStateMachine_flowState initializeStateMachine_store)
next
  case DropOTP
  then have "initBranchOf dec now'
               (setFlowState LOGGED_OUT (clearOTPRequest (snd (getRefreshToken dec s))))
               = NothingPending"
    using expiry
    by (auto simp: initBranchOf_def setFlowState_def clearOTPRequest_def
          getRefreshToken_session_update getRefreshToken_again split: option.splits if_splits)
  with DropOTP show ?thesis
    by (simp add: initializeStateMachine_flowState initializeStateMachine_store)
next
  case NothingPending
  then have "initBranchOf dec now' (setFlowState LOGGED_OUT (snd (getRefreshToken dec s)))
               = NothingPending"
    using expiry
    by (auto simp: initBranchOf_def setFlowState_def getRefreshToken_session_update
          getRefreshToken_again split: option.splits if_splits)
  with NothingPending show ?thesis
    by (simp add: initializeStateMachine_flowState initializeStateMachine_store)
qed

text \<open>A complete session, reconciled at time 1000 and again at time 2000.\<close>

theorem initializeStateMachine_idempotent_witness:
  "sm_flowState (fst (initializeStateMachine exampleDecrypt 1000 loggedInStore)) = AUTHENTICATED
   \<and> sm_flowState (fst (initializeStateMachine exampleDecrypt 2000
          (snd (initializeStateMachine exampleDecrypt 1000 loggedInStore)))) = AUTHENTICATED"
  using initializeStateMachine_idempotent [of 2000 loggedInStore 1000 exampleDecrypt]
  by (simp add: initializeStateMachine_flowState initBranchOf_def getRefreshToken_cases
        isSessionExpired_def getSessionMeta_def getOTPRequest_def
        loggedInStore_def SEVEN_DAYS_MS_def)

subsection \<open>The authenticated view (C10)\<close>

text \<open>
  C10.  The view returned by \<open>getCurrentState\<close> reports \<open>isAuthenticated\<close> exactly when
  the stored flow state is \<open>AUTHENTICATED\<close>, the session-storage auth record is present,
  and the refresh token is present and decrypts (to a non-empty string); the
  \<open>GetAuthState\<close> response carries the same flag.  So a stored \<open>AUTHENTICATED\<close> flag
  with either half missing never gives an authenticated view.
\<close>

theorem getCurrentState_isAuthenticated_iff:
  "isAuthenticated (fst (getCurrentState dec now s)) =
     (flowState (sessionStore s) = Some AUTHENTICATED
      \<and> (\<exists>a. auth (sessionStore s) = Some a)
      \<and> (\<exists>c iv t. encryptedRefreshToken (localStore s) = Some c
            \<and> refreshTokenIV (localStore s) = Some iv
            \<and> c \<noteq> [] \<and> iv \<noteq> [] \<and> dec c iv = Some t \<and> t \<noteq> []))
   \<and> (\<exists>d. response (handleGetAuthState dec now s) = Success d
          \<and> ar_isAuthenticated d = isAuthenticated (fst (getCurrentState dec now s)))"
  by (auto simp: getCurrentState_def handleGetAuthState_def getCompleteAuthState_def
        getRefreshToken_cases getFlowState_def getAuthState_def Let_def
        split: option.splits prod.splits if_splits)

text \<open>
  At a complete session the view is authenticated; with the same flag and auth record
  but no refresh token it is not.
\<close>

theorem getCurrentState_isAuthenticated_iff_witness:
  "isAuthenticated (fst (getCurrentState exampleDecrypt 1000 loggedInStore))
   \<and> flowState (sessionStore (clearRefreshToken loggedInStore)) = Some AUTHENTICATED
   \<and> auth (sessionStore (clearRefreshToken loggedInStore)) = Some exampleSessionAuth
   \<and> \<not> isAuthenticated (fst (getCurrentState exampleDecrypt 1000 (clearRefreshToken loggedInStore)))"
  using getCurrentState_isAuthenticated_iff [of exampleDecrypt 1000 loggedInStore]
        getCurrentState_isAuthenticated_iff [of exampleDecrypt 1000 "clearRefreshToken loggedInStore"]
  by (simp add: loggedInStore_def clearRefreshToken_def)

end
